theory Spec2Isabelle
  imports Complex_Main
begin

section \<open>Data model of \<open>src/lib/sync.js\<close>\<close>

text \<open>
  Timestamps (\<open>createdAt\<close>, \<open>updatedAt\<close>, \<open>lastCheck\<close>) are JavaScript dates, compared
  with \<open><\<close> and \<open>>\<close> through their millisecond value: they are modelled as \<open>int\<close>
  (milliseconds since the epoch). Identifiers are modelled by their string rendering,
  which is all the code uses of them (string concatenation). Errors handed to a Node
  callback are values of the datatype \<open>error\<close>; the constructor records which
  collaborator produced it.
\<close>

datatype error =
  FetchError string
| ParseError string
| DeliveryError string
| TypeError string

text \<open>An entity returned by the CRM client: a user (its \<open>name\<close> is used) or a subject
  (its \<open>id\<close> is used).\<close>

record entity =
  ent_id :: string
  ent_name :: string

record recording =
  rid :: string
  rtype :: string
  body :: string
  title :: "string option"
  authorId :: string
  subjectId :: string
  subjectType :: string
  subjectName :: string
  visibleTo :: string
  groupId :: int
  createdAt :: int
  updatedAt :: int
  author :: "entity option"
  subject :: "entity option"

text \<open>The module-level \<open>config\<close> object (lines 11-17).\<close>

record config =
  highriseUrl :: string
  slackUrl :: string
  groups :: "int list"
  showEveryone :: bool

text \<open>The result of mailparser's \<open>simpleParser\<close>: only \<open>mail.text\<close> is read, and it may
  be undefined.\<close>

record mail =
  mail_text :: "string option"

record attachment =
  fallback :: string
  att_text :: string
  ts :: rat
  mrkdwn_in :: "string list"
  att_title :: "string option"
  title_link :: "string option"

record payload =
  ptext :: string
  username :: string
  icon_url :: string
  attachments :: "attachment list"

text \<open>
  The collaborators the module closes over. \<open>get_recordings\<close> is
  \<open>client.get('recordings.xml', {since: lastCheck}, cb)\<close>, \<open>get_entity\<close> is
  \<open>client.get(path, cb)\<close>, \<open>simpleParser\<close> is mailparser's parser, \<open>request\<close> is the
  POST to \<open>config.slackUrl\<close>: what the package request hands to its callback, either
  an error (the request could not be made or got no response) or the response, of which
  the \<open>statusCode\<close> is kept. \<open>object_prototype name\<close> is the text a template literal
  renders for \<open>Object.prototype[name]\<close>, \<open>None\<close> when \<open>Object.prototype\<close> has no
  property of that name; its properties are functions and objects, all truthy.
  \<open>user_first\<close> says, for a recording, whether the response of the author
  fetch arrives before the response of the subject fetch: the two requests are in
  flight together and the code does not fix the order of their callbacks.
\<close>

record env =
  cfg :: config
  get_recordings :: "int \<Rightarrow> error + recording list"
  get_entity :: "string \<Rightarrow> error + entity"
  simpleParser :: "string \<Rightarrow> error + mail"
  request :: "payload \<Rightarrow> error + nat"
  object_prototype :: "string \<Rightarrow> string option"
  user_first :: "recording \<Rightarrow> bool"

section \<open>JavaScript helpers used by the code\<close>

text \<open>\<open>Array.prototype.indexOf\<close>: the first index holding the value, or \<open>-1\<close>.\<close>

fun indexOf :: "'a list \<Rightarrow> 'a \<Rightarrow> int" where
  "indexOf [] x = -1"
| "indexOf (y # ys) x =
     (if y = x then 0 else (let i = indexOf ys x in if i = -1 then -1 else i + 1))"

text \<open>\<open>Array.prototype.includes\<close>.\<close>

fun includes_js :: "'a list \<Rightarrow> 'a \<Rightarrow> bool" where
  "includes_js [] x = False"
| "includes_js (y # ys) x = (if y = x then True else includes_js ys x)"

text \<open>\<open>String.prototype.split\<close> with a one-character separator: never the empty
  array; the empty string gives one empty piece.\<close>

fun split :: "char \<Rightarrow> string \<Rightarrow> string list" where
  "split c [] = [[]]"
| "split c (x # xs) =
     (if x = c then [] # split c xs
      else (case split c xs of [] \<Rightarrow> [[x]] | w # ws \<Rightarrow> (x # w) # ws))"

text \<open>\<open>a || b\<close> on strings (the empty string is falsy) and with a possibly
  undefined left operand.\<close>

definition or_str :: "string \<Rightarrow> string \<Rightarrow> string" where
  "or_str a b = (if a = [] then b else a)"

fun or_undef :: "string option \<Rightarrow> string \<Rightarrow> string" where
  "or_undef None b = b"
| "or_undef (Some a) b = or_str a b"

text \<open>The comparator factory \<open>cmp\<close> (lines 188-192) and \<open>Array.prototype.sort\<close> with
  a comparator, as a stable insertion sort: with a comparator that is a total
  preorder every stable sort returns the same array.\<close>

definition cmp :: "('a \<Rightarrow> int) \<Rightarrow> 'a \<Rightarrow> 'a \<Rightarrow> int" where
  "cmp prop a b = (if prop a > prop b then 1 else if prop a < prop b then -1 else 0)"

fun insert_by :: "('a \<Rightarrow> 'a \<Rightarrow> int) \<Rightarrow> 'a \<Rightarrow> 'a list \<Rightarrow> 'a list" where
  "insert_by c x [] = [x]"
| "insert_by c x (y # ys) = (if c x y > 0 then y # insert_by c x ys else x # y # ys)"

definition sort_by :: "('a \<Rightarrow> 'a \<Rightarrow> int) \<Rightarrow> 'a list \<Rightarrow> 'a list" where
  "sort_by c xs = foldr (insert_by c) xs []"

section \<open>The functions of the module\<close>

text \<open>The keys of \<open>recordingTypes\<close> (lines 19-23), in insertion order, and the lookup
  \<open>recordingTypes[type] || 'a note'\<close> (line 114), as the text the template literal of
  line 124 renders for it. The lookup finds the object's own properties first, then the
  properties it inherits from \<open>Object.prototype\<close> (\<open>constructor\<close>, \<open>toString\<close>, ...), which
  are truthy; only a name that is neither gives \<open>undefined\<close> and so the default.\<close>

definition recordingTypes :: "(string \<times> string) list" where
  "recordingTypes =
     [(''email'', ''an email''), (''note'', ''a note''), (''comment'', ''a comment'')]"

definition recordingType :: "(string \<Rightarrow> string option) \<Rightarrow> string \<Rightarrow> string" where
  "recordingType proto t =
     (case map_of recordingTypes t of
        Some label \<Rightarrow> or_str label ''a note''
      | None \<Rightarrow> (case proto t of Some inherited \<Rightarrow> inherited | None \<Rightarrow> ''a note''))"

text \<open>\<open>filterRecord\<close> (lines 57-66), a closure over \<open>config\<close> and \<open>lastCheck\<close>.\<close>

definition filterRecord :: "config \<Rightarrow> int \<Rightarrow> recording \<Rightarrow> bool" where
  "filterRecord c lastCheck record =
     (includes_js (map fst recordingTypes) (rtype record) \<and>
      ((visibleTo record = ''Everyone'' \<and> showEveryone c) \<or>
       indexOf (groups c) (groupId record) > -1) \<and>
      createdAt record > lastCheck)"

text \<open>\<open>getSubjectPath\<close> (lines 175-186).\<close>

definition getSubjectPath :: "string \<Rightarrow> string" where
  "getSubjectPath t =
     (if t = ''Party'' then ''people''
      else if t = ''Deal'' then ''deals''
      else if t = ''Kase'' then ''kases''
      else ''people'')"

text \<open>\<open>getSubject\<close> (lines 148-158). The result is what the callback receives,
  together with the resource paths requested from the client, in order.\<close>

function getSubject ::
  "(string \<Rightarrow> error + entity) \<Rightarrow> string \<Rightarrow> string \<Rightarrow> (error + entity) \<times> string list" where
  "getSubject get subjId subjectPath =
     (case get (subjectPath @ ''/'' @ subjId @ ''.xml'') of
        Inl err \<Rightarrow>
          (if subjectPath = ''people''
           then (case getSubject get subjId ''companies'' of
                   (res, paths) \<Rightarrow> (res, (subjectPath @ ''/'' @ subjId @ ''.xml'') # paths))
           else (Inl err, [subjectPath @ ''/'' @ subjId @ ''.xml'']))
      | Inr subj \<Rightarrow> (Inr subj, [subjectPath @ ''/'' @ subjId @ ''.xml'']))"
  by pat_completeness auto
termination
  by (relation "measure (\<lambda>(get, subjId, p). if p = ''people'' then 1 else 0)") auto

declare getSubject.simps [simp del]

text \<open>\<open>parseBody\<close> (lines 160-167).\<close>

definition parseBody :: "(string \<Rightarrow> error + mail) \<Rightarrow> recording \<Rightarrow> error + string" where
  "parseBody parser r =
     (if rtype r = ''note'' then Inr (body r)
      else (case parser (''Content-Type: text/plain; charset=UTF-8''
                          @ [CHR 0x0A, CHR 0x0A] @ body r) of
              Inl err \<Rightarrow> Inl err
            | Inr m \<Rightarrow> Inr (or_str (or_undef (mail_text m) (body r)) [])))"

text \<open>\<open>truncate\<close> (lines 169-173): the cap is commented out. In \<open>formatWebhook\<close>
  the ellipsis character of the \<open>Read more\<close> link is written as three dots.\<close>

definition truncate_js :: "string \<Rightarrow> string" where
  "truncate_js t = t"

text \<open>\<open>formatWebhook\<close> (lines 112-141). Reading \<open>recording.author.name\<close> or
  \<open>recording.subject.id\<close> of a recording without the field throws a \<open>TypeError\<close>.
  \<open>+recording.createdAt / 1000\<close> is the quotient of the millisecond value by 1000,
  kept exact here.\<close>

definition formatWebhook :: "env \<Rightarrow> recording \<Rightarrow> error + payload" where
  "formatWebhook e r =
     (case author r of
        None \<Rightarrow> Inl (TypeError ''Cannot read properties of undefined'')
      | Some a \<Rightarrow>
          (let authorFirstName = hd (split CHR '' '' (ent_name a));
               recType = recordingType (object_prototype e) (rtype r)
           in case parseBody (simpleParser e) r of
                Inl err \<Rightarrow> Inl err
              | Inr b \<Rightarrow>
                 (case subject r of
                    None \<Rightarrow> Inl (TypeError ''Cannot read properties of undefined'')
                  | Some s \<Rightarrow>
                     (let truncatedBody = truncate_js b;
                          recordingLink = highriseUrl (cfg e) @ rtype r @ ''s/'' @ rid r;
                          subjectLink = highriseUrl (cfg e) @ getSubjectPath (subjectType r)
                                          @ ''/'' @ ent_id s;
                          b' = (if truncatedBody \<noteq> b
                                then truncatedBody @ '' <'' @ recordingLink @ ''|Read more...>''
                                else b);
                          att = \<lparr>fallback = body r, att_text = b',
                                 ts = of_int (createdAt r) / 1000,
                                 mrkdwn_in = [''text'', ''pretext''],
                                 att_title = None, title_link = None\<rparr>;
                          att' = (case title r of
                                    None \<Rightarrow> att
                                  | Some t \<Rightarrow>
                                      (if t = [] then att
                                       else att\<lparr>att_title := Some t,
                                                title_link := Some (highriseUrl (cfg e) @ rtype r
                                                                     @ ''s/'' @ rid r)\<rparr>))
                      in Inr \<lparr>ptext = authorFirstName @ '' shared <'' @ recordingLink @ ''|''
                                        @ recType @ ''> about <'' @ subjectLink @ ''|''
                                        @ subjectName r @ ''>'',
                              username = ''highrise'',
                              icon_url = ''http://68.media.tumblr.com/avatar_079aaa3d2066_128.png'',
                              attachments = [att']\<rparr>))))"

text \<open>
  \<open>sendWebhook\<close> (lines 69-110). The function starts two fetches and joins them with
  the counter \<open>pending\<close>; its callback is wrapped in \<open>once\<close>. The state of one call:
  the counter, the recording object (which the callbacks mutate), what the callback
  was called with (\<open>None\<close> while it has not been called, \<open>Some None\<close> for a call
  without error, \<open>Some (Some err)\<close> for a call with an error) and the payloads handed
  to \<open>request\<close>.
\<close>

record wstate =
  pending :: int
  target :: recording
  cb_called :: "error option option"
  posted :: "payload list"

text \<open>\<open>once(cb)\<close>: only the first call goes through.\<close>

definition call_once :: "error option \<Rightarrow> wstate \<Rightarrow> wstate" where
  "call_once err st =
     (case cb_called st of None \<Rightarrow> st\<lparr>cb_called := Some err\<rparr> | Some _ \<Rightarrow> st)"

text \<open>The inner function \<open>done\<close> (lines 91-109). The callback is handed to \<open>request\<close>
  as it is (line 107): it receives the error argument of \<open>request\<close>'s callback, and the
  response and its status code are not looked at.\<close>

definition done_send :: "env \<Rightarrow> error option \<Rightarrow> wstate \<Rightarrow> wstate" where
  "done_send e err st =
     (case err of
        Some _ \<Rightarrow> call_once None st
      | None \<Rightarrow>
          (let st1 = st\<lparr>pending := pending st - 1\<rparr>
           in if pending st1 > 0 then st1
              else (case formatWebhook e (target st1) of
                      Inl ferr \<Rightarrow> call_once (Some ferr) st1
                    | Inr p \<Rightarrow>
                        (case request e p of
                           Inl rerr \<Rightarrow> call_once (Some rerr) (st1\<lparr>posted := posted st1 @ [p]\<rparr>)
                         | Inr status \<Rightarrow> call_once None (st1\<lparr>posted := posted st1 @ [p]\<rparr>)))))"

text \<open>The callback of the author fetch (lines 73-81) and of \<open>getSubject\<close>
  (lines 82-90).\<close>

definition on_user :: "env \<Rightarrow> error + entity \<Rightarrow> wstate \<Rightarrow> wstate" where
  "on_user e res st =
     (case res of
        Inl err \<Rightarrow> done_send e (Some err) st
      | Inr user \<Rightarrow> done_send e None (st\<lparr>target := (target st)\<lparr>author := Some user\<rparr>\<rparr>))"

definition on_subject :: "env \<Rightarrow> error + entity \<Rightarrow> wstate \<Rightarrow> wstate" where
  "on_subject e res st =
     (case res of
        Inl err \<Rightarrow> done_send e (Some err) st
      | Inr subj \<Rightarrow> done_send e None (st\<lparr>target := (target st)\<lparr>subject := Some subj\<rparr>\<rparr>))"

definition sendWebhook :: "env \<Rightarrow> recording \<Rightarrow> wstate" where
  "sendWebhook e r =
     (let st0 = \<lparr>pending = 2, target = r, cb_called = None, posted = []\<rparr>;
          ures = get_entity e (''users/'' @ authorId r @ ''.xml'');
          sres = fst (getSubject (get_entity e) (subjectId r) (getSubjectPath (subjectType r)))
      in if user_first e r then on_subject e sres (on_user e ures st0)
         else on_user e ures (on_subject e sres st0))"

text \<open>
  \<open>run(tasks, done)\<close> of the package run-series: the tasks run one after the other,
  the first error ends the series, and \<open>done\<close> receives it. A task that never calls
  back leaves the series hanging: the result is \<open>None\<close>. The second component
  collects the payloads handed to \<open>request\<close>.
\<close>

fun run :: "('a \<Rightarrow> wstate) \<Rightarrow> 'a list \<Rightarrow> error option option \<times> payload list" where
  "run task [] = (Some None, [])"
| "run task (t # rest) =
     (let st = task t
      in case cb_called st of
           None \<Rightarrow> (None, posted st)
         | Some (Some err) \<Rightarrow> (Some (Some err), posted st)
         | Some None \<Rightarrow> (case run task rest of (res, ps) \<Rightarrow> (res, posted st @ ps)))"

text \<open>The inner function \<open>done\<close> of \<open>sync\<close> on success (line 53). Indexing the empty
  array gives \<open>undefined\<close>, whose property read throws.\<close>

definition done_sync :: "recording list \<Rightarrow> error + int" where
  "done_sync data =
     (let sorted = sort_by (cmp updatedAt) data
      in if sorted = [] then Inl (TypeError ''Cannot read properties of undefined'')
         else Inr (updatedAt (last sorted)))"

text \<open>The candidates of a cycle, \<open>filteredData\<close> (lines 36-38).\<close>

definition filteredData :: "config \<Rightarrow> int \<Rightarrow> recording list \<Rightarrow> recording list" where
  "filteredData c lastCheck data =
     sort_by (cmp createdAt) (filter (filterRecord c lastCheck) data)"

text \<open>\<open>sync\<close> (lines 27-55): what its callback receives (\<open>None\<close> if it is never
  called) and the payloads handed to \<open>request\<close> during the cycle.\<close>

definition sync :: "env \<Rightarrow> int \<Rightarrow> (error + int) option \<times> payload list" where
  "sync e lastCheck =
     (case get_recordings e lastCheck of
        Inl err \<Rightarrow> (Some (Inl err), [])
      | Inr data \<Rightarrow>
          (if length (filteredData (cfg e) lastCheck data) = 0
           then (Some (Inr lastCheck), [])
           else (case run (sendWebhook e) (filteredData (cfg e) lastCheck data) of
                   (None, ps) \<Rightarrow> (None, ps)
                 | (Some (Some err), ps) \<Rightarrow> (Some (Inl err), ps)
                 | (Some None, ps) \<Rightarrow> (Some (done_sync data), ps))))"

section \<open>A small CRM to run the functions on\<close>

definition demo_cfg :: config where
  "demo_cfg = \<lparr>highriseUrl = ''https://acme.highrisehq.com/'',
               slackUrl = ''https://hooks.slack.com/services/T0'',
               groups = [42], showEveryone = True\<rparr>"

definition demo_crm :: "string \<Rightarrow> error + entity" where
  "demo_crm path =
     (if path = ''users/7.xml'' then Inr \<lparr>ent_id = ''7'', ent_name = ''Ann Lee''\<rparr>
      else if path = ''users/3.xml''
        then Inr \<lparr>ent_id = ''3'', ent_name = ''Ann'' @ [CHR 0x09] @ ''Lee''\<rparr>
      else if path = ''people/2.xml'' then Inr \<lparr>ent_id = ''2'', ent_name = ''Bo Chen''\<rparr>
      else if path = ''companies/5.xml'' then Inr \<lparr>ent_id = ''5'', ent_name = ''Acme''\<rparr>
      else if path = ''deals/9.xml'' then Inr \<lparr>ent_id = ''9'', ent_name = ''Renewal''\<rparr>
      else Inl (FetchError ''404''))"

definition demo_parser :: "string \<Rightarrow> error + mail" where
  "demo_parser raw = Inr \<lparr>mail_text = Some ''Hello''\<rparr>"

definition failing_parser :: "string \<Rightarrow> error + mail" where
  "failing_parser raw = Inl (ParseError ''malformed message'')"

definition request_ok :: "payload \<Rightarrow> error + nat" where
  "request_ok p = Inr 200"

definition request_down :: "payload \<Rightarrow> error + nat" where
  "request_down p = Inl (DeliveryError ''ECONNREFUSED'')"

text \<open>An endpoint that answers every POST with status 500.\<close>

definition request_500 :: "payload \<Rightarrow> error + nat" where
  "request_500 p = Inr 500"

text \<open>Some properties of \<open>Object.prototype\<close>, as Node renders them.\<close>

definition node_prototype :: "string \<Rightarrow> string option" where
  "node_prototype name =
     (if name = ''constructor'' then Some ''function Object() { [native code] }''
      else if name = ''toString'' then Some ''function toString() { [native code] }''
      else if name = ''valueOf'' then Some ''function valueOf() { [native code] }''
      else if name = ''hasOwnProperty''
        then Some ''function hasOwnProperty() { [native code] }''
      else None)"

definition demo_env ::
  "recording list \<Rightarrow> (string \<Rightarrow> error + mail) \<Rightarrow> (payload \<Rightarrow> error + nat) \<Rightarrow> env" where
  "demo_env data parser req =
     \<lparr>cfg = demo_cfg, get_recordings = (\<lambda>since. Inr data), get_entity = demo_crm,
      simpleParser = parser, request = req, object_prototype = node_prototype,
      user_first = (\<lambda>r. True)\<rparr>"

definition rec_email :: recording where
  "rec_email = \<lparr>rid = ''1'', rtype = ''email'', body = ''Hi'', title = Some ''Offer'',
      authorId = ''7'', subjectId = ''5'', subjectType = ''Party'', subjectName = ''Acme'',
      visibleTo = ''Everyone'', groupId = 0, createdAt = 100, updatedAt = 150,
      author = None, subject = None\<rparr>"

definition rec_call :: recording where
  "rec_call = \<lparr>rid = ''2'', rtype = ''call'', body = [], title = None,
      authorId = ''7'', subjectId = ''5'', subjectType = ''Party'', subjectName = ''Acme'',
      visibleTo = ''NamedGroup'', groupId = 42, createdAt = 200, updatedAt = 900,
      author = None, subject = None\<rparr>"

definition rec_orphan :: recording where
  "rec_orphan = \<lparr>rid = ''3'', rtype = ''comment'', body = ''Call back'', title = None,
      authorId = ''8'', subjectId = ''9'', subjectType = ''Deal'', subjectName = ''Renewal'',
      visibleTo = ''NamedGroup'', groupId = 42, createdAt = 120, updatedAt = 130,
      author = None, subject = None\<rparr>"

definition rec_note :: recording where
  "rec_note = \<lparr>rid = ''4'', rtype = ''note'', body = ''Met at fair'', title = None,
      authorId = ''7'', subjectId = ''9'', subjectType = ''Deal'', subjectName = ''Renewal'',
      visibleTo = ''Everyone'', groupId = 0, createdAt = 300, updatedAt = 300,
      author = None, subject = None\<rparr>"

text \<open>A note whose \<open>updatedAt\<close> lies before its \<open>createdAt\<close>.\<close>

definition rec_backdated :: recording where
  "rec_backdated = \<lparr>rid = ''5'', rtype = ''note'', body = ''Imported'', title = None,
      authorId = ''7'', subjectId = ''9'', subjectType = ''Deal'', subjectName = ''Renewal'',
      visibleTo = ''Everyone'', groupId = 0, createdAt = 100, updatedAt = 50,
      author = None, subject = None\<rparr>"

text \<open>A note with an empty title, written by the user whose name holds a tab.\<close>

definition rec_tabbed :: recording where
  "rec_tabbed = \<lparr>rid = ''6'', rtype = ''note'', body = ''Lunch'', title = Some [],
      authorId = ''3'', subjectId = ''9'', subjectType = ''Deal'', subjectName = ''Renewal'',
      visibleTo = ''Everyone'', groupId = 0, createdAt = 400, updatedAt = 400,
      author = None, subject = None\<rparr>"

definition empty_parser :: "string \<Rightarrow> error + mail" where
  "empty_parser raw = Inr \<lparr>mail_text = None\<rparr>"

definition demo_data :: "recording list" where
  "demo_data = [rec_email, rec_call, rec_orphan, rec_note]"

definition demo :: env where
  "demo = demo_env demo_data demo_parser request_ok"

definition demo_down :: env where
  "demo_down = demo_env demo_data demo_parser request_down"

definition demo_500 :: env where
  "demo_500 = demo_env demo_data demo_parser request_500"


definition demo_unparsable :: env where
  "demo_unparsable = demo_env demo_data failing_parser request_ok"

definition demo_backdated :: env where
  "demo_backdated = demo_env [rec_backdated] demo_parser request_ok"

definition demo_tabbed :: env where
  "demo_tabbed = demo_env [rec_tabbed] demo_parser request_ok"

definition ann :: entity where
  "ann = \<lparr>ent_id = ''7'', ent_name = ''Ann Lee''\<rparr>"

definition ann_tab :: entity where
  "ann_tab = \<lparr>ent_id = ''3'', ent_name = ''Ann'' @ [CHR 0x09] @ ''Lee''\<rparr>"

definition bo :: entity where
  "bo = \<lparr>ent_id = ''2'', ent_name = ''Bo Chen''\<rparr>"

definition acme :: entity where
  "acme = \<lparr>ent_id = ''5'', ent_name = ''Acme''\<rparr>"

definition renewal :: entity where
  "renewal = \<lparr>ent_id = ''9'', ent_name = ''Renewal''\<rparr>"

text \<open>The payloads the code builds for \<open>rec_email\<close>, \<open>rec_note\<close>, \<open>rec_backdated\<close> and
  \<open>rec_tabbed\<close>.\<close>

definition email_payload :: payload where
  "email_payload =
     \<lparr>ptext = ''Ann shared <https://acme.highrisehq.com/emails/1|an email> about <https://acme.highrisehq.com/people/5|Acme>'',
      username = ''highrise'',
      icon_url = ''http://68.media.tumblr.com/avatar_079aaa3d2066_128.png'',
      attachments = [\<lparr>fallback = ''Hi'', att_text = ''Hello'', ts = 1 / 10,
                       mrkdwn_in = [''text'', ''pretext''], att_title = Some ''Offer'',
                       title_link = Some ''https://acme.highrisehq.com/emails/1''\<rparr>]\<rparr>"

definition note_payload :: payload where
  "note_payload =
     \<lparr>ptext = ''Ann shared <https://acme.highrisehq.com/notes/4|a note> about <https://acme.highrisehq.com/deals/9|Renewal>'',
      username = ''highrise'',
      icon_url = ''http://68.media.tumblr.com/avatar_079aaa3d2066_128.png'',
      attachments = [\<lparr>fallback = ''Met at fair'', att_text = ''Met at fair'', ts = 3 / 10,
                       mrkdwn_in = [''text'', ''pretext''], att_title = None,
                       title_link = None\<rparr>]\<rparr>"

definition backdated_payload :: payload where
  "backdated_payload =
     \<lparr>ptext = ''Ann shared <https://acme.highrisehq.com/notes/5|a note> about <https://acme.highrisehq.com/deals/9|Renewal>'',
      username = ''highrise'',
      icon_url = ''http://68.media.tumblr.com/avatar_079aaa3d2066_128.png'',
      attachments = [\<lparr>fallback = ''Imported'', att_text = ''Imported'', ts = 1 / 10,
                       mrkdwn_in = [''text'', ''pretext''], att_title = None,
                       title_link = None\<rparr>]\<rparr>"

definition tabbed_payload :: payload where
  "tabbed_payload =
     \<lparr>ptext = ''Ann'' @ [CHR 0x09] @ ''Lee shared <https://acme.highrisehq.com/notes/6|a note> about <https://acme.highrisehq.com/deals/9|Renewal>'',
      username = ''highrise'',
      icon_url = ''http://68.media.tumblr.com/avatar_079aaa3d2066_128.png'',
      attachments = [\<lparr>fallback = ''Lunch'', att_text = ''Lunch'', ts = 2 / 5,
                       mrkdwn_in = [''text'', ''pretext''], att_title = None,
                       title_link = None\<rparr>]\<rparr>"

section \<open>The specification's own words\<close>

text \<open>
  The specification describes the author's first name as the first
  whitespace-delimited token of \<open>author.name\<close>, and the label of a type as one of the
  three labels, \<open>a note\<close> for any other type. The definitions below follow these words,
  to be compared with what \<open>formatWebhook\<close> computes.
\<close>

definition is_whitespace :: "char \<Rightarrow> bool" where
  "is_whitespace c =
     (c = CHR '' '' \<or> c = CHR 0x09 \<or> c = CHR 0x0A \<or> c = CHR 0x0B \<or> c = CHR 0x0C \<or> c = CHR 0x0D)"

definition spec_authorFirstName :: "string \<Rightarrow> string" where
  "spec_authorFirstName name =
     takeWhile (\<lambda>c. \<not> is_whitespace c) (dropWhile is_whitespace name)"

definition spec_recordingTypeLabel :: "string \<Rightarrow> string" where
  "spec_recordingTypeLabel t =
     (if t = ''email'' then ''an email''
      else if t = ''note'' then ''a note''
      else if t = ''comment'' then ''a comment''
      else ''a note'')"

definition spec_main_text :: "config \<Rightarrow> recording \<Rightarrow> entity \<Rightarrow> entity \<Rightarrow> string" where
  "spec_main_text c r a s =
     spec_authorFirstName (ent_name a) @ '' shared <''
       @ (highriseUrl c @ rtype r @ ''s/'' @ rid r) @ ''|''
       @ spec_recordingTypeLabel (rtype r)
       @ ''> about <'' @ (highriseUrl c @ getSubjectPath (subjectType r) @ ''/'' @ ent_id s)
       @ ''|'' @ subjectName r @ ''>''"

text \<open>
  The specification's webhook transport fails with a delivery error on a transport
  failure and on a response whose status is not 2xx.
\<close>

definition spec_delivery_error :: "error + nat \<Rightarrow> bool" where
  "spec_delivery_error res =
     (case res of Inl err \<Rightarrow> True | Inr status \<Rightarrow> \<not> (200 \<le> status \<and> status < 300))"

section \<open>Facts about the helpers\<close>

lemma indexOf_lower: "indexOf xs x \<ge> -1"
  by (induction xs) (auto simp: Let_def)

lemma indexOf_found: "indexOf xs x > -1 \<longleftrightarrow> x \<in> set xs"
proof (induction xs)
  case Nil
  show ?case by simp
next
  case (Cons y ys)
  have "indexOf ys x \<ge> -1" by (rule indexOf_lower)
  with Cons show ?case by (auto simp: Let_def)
qed

lemma includes_js_set: "includes_js xs x \<longleftrightarrow> x \<in> set xs"
  by (induction xs) auto

lemma split_not_Nil: "split c s \<noteq> []"
  by (induction s) (auto split: list.splits)

lemma hd_split: "hd (split c s) = takeWhile (\<lambda>x. x \<noteq> c) s"
  using split_not_Nil [of c] by (induction s) (auto split: list.splits)

subsection \<open>Sorting with \<open>cmp\<close>\<close>

lemma set_insert_by: "set (insert_by c x xs) = insert x (set xs)"
  by (induction xs) auto

lemma set_sort_by: "set (sort_by c xs) = set xs"
  by (induction xs) (simp_all add: sort_by_def set_insert_by)

lemma sort_by_Nil_iff: "sort_by c xs = [] \<longleftrightarrow> xs = []"
  using set_sort_by [of c xs] by (metis set_empty)

lemma sorted_insert_by:
  "sorted_wrt (\<lambda>a b. f a \<le> f b) xs \<Longrightarrow>
     sorted_wrt (\<lambda>a b. f a \<le> f b) (insert_by (cmp f) x xs)"
proof (induction xs)
  case Nil
  show ?case by simp
next
  case (Cons y ys)
  show ?case
  proof (cases "cmp f x y > 0")
    case True
    then have "f y < f x" by (simp add: cmp_def split: if_splits)
    with Cons True show ?thesis by (auto simp: set_insert_by)
  next
    case False
    then have "f x \<le> f y" by (simp add: cmp_def split: if_splits)
    with Cons False show ?thesis by auto
  qed
qed

lemma sorted_sort_by: "sorted_wrt (\<lambda>a b. f a \<le> f b) (sort_by (cmp f) xs)"
  by (induction xs) (simp_all add: sort_by_def sorted_insert_by)

lemma sorted_wrt_last_ge:
  "sorted_wrt (\<lambda>a b. f a \<le> f b) xs \<Longrightarrow> x \<in> set xs \<Longrightarrow> (f x :: int) \<le> f (last xs)"
  by (induction xs) auto

lemma last_sort_by_Max:
  assumes "xs \<noteq> []"
  shows "f (last (sort_by (cmp f) xs)) = Max (f ` set xs)"
proof -
  let ?s = "sort_by (cmp f) xs"
  have ne: "?s \<noteq> []" using assms by (simp add: sort_by_Nil_iff)
  then have "last ?s \<in> set xs" using last_in_set [of ?s] by (simp add: set_sort_by)
  moreover have "f x \<le> f (last ?s)" if "x \<in> set xs" for x
    using sorted_wrt_last_ge [OF sorted_sort_by, of x f xs] that by (simp add: set_sort_by)
  ultimately show ?thesis
    by (intro Max_eqI [symmetric]) auto
qed

lemma done_sync_Max: "data \<noteq> [] \<Longrightarrow> done_sync data = Inr (Max (updatedAt ` set data))"
  by (simp add: done_sync_def Let_def sort_by_Nil_iff last_sort_by_Max)

subsection \<open>The subject fetch\<close>

lemma getSubject_other:
  "p \<noteq> ''people'' \<Longrightarrow>
     getSubject get sid p = (get (p @ ''/'' @ sid @ ''.xml''), [p @ ''/'' @ sid @ ''.xml''])"
  by (subst getSubject.simps) (simp split: sum.splits)

lemma getSubject_people_ok:
  "get (''people/'' @ sid @ ''.xml'') = Inr s \<Longrightarrow>
     getSubject get sid ''people'' = (Inr s, [''people/'' @ sid @ ''.xml''])"
  by (subst getSubject.simps) simp

lemma getSubject_people_retry:
  assumes "get (''people/'' @ sid @ ''.xml'') = Inl err"
  shows "getSubject get sid ''people'' =
           (get (''companies/'' @ sid @ ''.xml''),
            [''people/'' @ sid @ ''.xml'', ''companies/'' @ sid @ ''.xml''])"
proof -
  have retry: "getSubject get sid ''companies'' =
      (get (''companies/'' @ sid @ ''.xml''), [''companies/'' @ sid @ ''.xml''])"
    using getSubject_other [of "''companies''" get sid] by simp
  show ?thesis
    by (subst getSubject.simps) (use assms in \<open>simp add: retry\<close>)
qed

subsection \<open>The per-recording step\<close>

text \<open>The outcome of \<open>sendWebhook\<close> does not depend on which response arrives first.\<close>

lemma sendWebhook_user_fails:
  assumes "get_entity e (''users/'' @ authorId r @ ''.xml'') = Inl err"
  shows "cb_called (sendWebhook e r) = Some None \<and> posted (sendWebhook e r) = []"
  using assms
  by (cases "fst (getSubject (get_entity e) (subjectId r) (getSubjectPath (subjectType r)))")
     (simp_all add: Let_def sendWebhook_def on_user_def on_subject_def done_send_def call_once_def)

lemma sendWebhook_subject_fails:
  assumes "fst (getSubject (get_entity e) (subjectId r) (getSubjectPath (subjectType r))) = Inl err"
  shows "cb_called (sendWebhook e r) = Some None \<and> posted (sendWebhook e r) = []"
  using assms
  by (cases "get_entity e (''users/'' @ authorId r @ ''.xml'')")
     (simp_all add: Let_def sendWebhook_def on_user_def on_subject_def done_send_def call_once_def)


lemma enrich_commute:
  "r\<lparr>subject := Some s, author := Some a\<rparr> = r\<lparr>author := Some a, subject := Some s\<rparr>"
  by (cases r) simp

lemma sendWebhook_both_ok:
  assumes "get_entity e (''users/'' @ authorId r @ ''.xml'') = Inr a"
    and "fst (getSubject (get_entity e) (subjectId r) (getSubjectPath (subjectType r))) = Inr s"
  shows "sendWebhook e r =
           (case formatWebhook e (r\<lparr>author := Some a, subject := Some s\<rparr>) of
              Inl ferr \<Rightarrow> \<lparr>pending = 0, target = r\<lparr>author := Some a, subject := Some s\<rparr>,
                            cb_called = Some (Some ferr), posted = []\<rparr>
            | Inr p \<Rightarrow> \<lparr>pending = 0, target = r\<lparr>author := Some a, subject := Some s\<rparr>,
                         cb_called = Some (case request e p of
                                             Inl rerr \<Rightarrow> Some rerr | Inr status \<Rightarrow> None),
                         posted = [p]\<rparr>)"
  using assms
  by (simp add: Let_def sendWebhook_def on_user_def on_subject_def done_send_def call_once_def
      enrich_commute split: sum.splits)

lemma sendWebhook_calls_back: "cb_called (sendWebhook e r) \<noteq> None"
proof (cases "get_entity e (''users/'' @ authorId r @ ''.xml'')")
  case (Inl err)
  then show ?thesis using sendWebhook_user_fails by simp
next
  case (Inr a)
  show ?thesis
  proof (cases "fst (getSubject (get_entity e) (subjectId r) (getSubjectPath (subjectType r)))")
    case (Inl err)
    then show ?thesis using sendWebhook_subject_fails by simp
  next
    case (Inr s)
    with \<open>get_entity e _ = Inr a\<close> show ?thesis
      by (simp add: sendWebhook_both_ok split: sum.splits)
  qed
qed

lemma formatWebhook_user_first: "formatWebhook (e\<lparr>user_first := f\<rparr>) r = formatWebhook e r"
  by (simp add: formatWebhook_def Let_def split: option.splits sum.splits)

lemma sendWebhook_order_irrelevant: "sendWebhook (e\<lparr>user_first := f\<rparr>) r = sendWebhook e r"
proof -
  let ?u = "get_entity e (''users/'' @ authorId r @ ''.xml'')"
  let ?s = "fst (getSubject (get_entity e) (subjectId r) (getSubjectPath (subjectType r)))"
  show ?thesis
  proof (cases ?u)
    case u: (Inl uerr)
    then show ?thesis
      by (cases ?s)
        (simp_all add: Let_def sendWebhook_def on_user_def on_subject_def done_send_def
          call_once_def)
  next
    case u: (Inr a)
    show ?thesis
    proof (cases ?s)
      case (Inl serr)
      with u show ?thesis
        by (simp add: Let_def sendWebhook_def on_user_def on_subject_def done_send_def
            call_once_def)
    next
      case (Inr s)
      with u show ?thesis
        by (simp add: Let_def sendWebhook_def on_user_def on_subject_def done_send_def
            call_once_def enrich_commute formatWebhook_user_first split: sum.splits)
    qed
  qed
qed

lemma parseBody_fails:
  "rtype r \<noteq> ''note'' \<Longrightarrow>
   parser (''Content-Type: text/plain; charset=UTF-8'' @ [CHR 0x0A, CHR 0x0A] @ body r) = Inl err \<Longrightarrow>
   parseBody parser r = Inl err"
  by (simp add: parseBody_def)

lemma formatWebhook_parse_fails:
  "author r = Some a \<Longrightarrow> subject r = Some s \<Longrightarrow> parseBody (simpleParser e) r = Inl err \<Longrightarrow>
     formatWebhook e r = Inl err"
  by (simp add: formatWebhook_def)

subsection \<open>The series of tasks\<close>

lemma run_calls_back:
  "(\<forall>t \<in> set xs. cb_called (task t) \<noteq> None) \<Longrightarrow> fst (run task xs) \<noteq> None"
  by (induction xs) (auto simp: Let_def split: option.splits prod.splits)

lemma run_all_ok:
  "(\<forall>t \<in> set xs. cb_called (task t) = Some None) \<Longrightarrow>
     run task xs = (Some None, concat (map (\<lambda>t. posted (task t)) xs))"
  by (induction xs) (auto simp: Let_def)



lemma run_first_error:
  "(\<forall>t \<in> set pre. cb_called (task t) = Some None) \<Longrightarrow> cb_called (task x) = Some (Some err) \<Longrightarrow>
     run task (pre @ x # post) =
       (Some (Some err), concat (map (\<lambda>t. posted (task t)) pre) @ posted (task x))"
  by (induction pre) (auto simp: Let_def)

lemma run_error:
  "x \<in> set xs \<Longrightarrow> cb_called (task x) = Some (Some err) \<Longrightarrow>
     (\<forall>t \<in> set xs. cb_called (task t) \<noteq> None) \<Longrightarrow>
     \<exists>err'. fst (run task xs) = Some (Some err')"
  by (induction xs) (auto simp: Let_def split: option.splits prod.splits)

lemma run_skip:
  "cb_called (task x) = Some None \<Longrightarrow> posted (task x) = [] \<Longrightarrow>
     run task (pre @ x # post) = run task (pre @ post)"
  by (induction pre) (auto simp: Let_def split: option.splits prod.splits)

lemma run_ok_all:
  "fst (run task xs) = Some None \<Longrightarrow> t \<in> set xs \<Longrightarrow> cb_called (task t) = Some None"
  by (induction xs) (auto simp: Let_def split: option.splits prod.splits)

subsection \<open>The cycle\<close>

lemma set_filteredData:
  "set (filteredData c lastCheck data) = {r \<in> set data. filterRecord c lastCheck r}"
  by (simp add: filteredData_def set_sort_by)

lemma filteredData_Nil_iff:
  "filteredData c lastCheck data = [] \<longleftrightarrow> (\<forall>r \<in> set data. \<not> filterRecord c lastCheck r)"
  using set_filteredData [of c lastCheck data] by (auto simp flip: set_empty)

lemma sync_no_candidates:
  "get_recordings e lastCheck = Inr data \<Longrightarrow> filteredData (cfg e) lastCheck data = [] \<Longrightarrow>
     sync e lastCheck = (Some (Inr lastCheck), [])"
  by (simp add: sync_def)

lemma run_sendWebhook_calls_back: "fst (run (sendWebhook e) xs) \<noteq> None"
  by (rule run_calls_back) (simp add: sendWebhook_calls_back)

lemma sync_calls_back: "fst (sync e lastCheck) \<noteq> None"
proof (cases "get_recordings e lastCheck")
  case (Inl err)
  then show ?thesis by (simp add: sync_def)
next
  case (Inr data)
  obtain res ps where r: "run (sendWebhook e) (filteredData (cfg e) lastCheck data) = (res, ps)"
    by (cases "run (sendWebhook e) (filteredData (cfg e) lastCheck data)")
  with run_sendWebhook_calls_back [of e "filteredData (cfg e) lastCheck data"]
  have "res \<noteq> None" by simp
  with Inr r show ?thesis by (auto simp: sync_def split: option.splits)
qed

lemma sync_success:
  assumes "get_recordings e lastCheck = Inr data"
    and "filteredData (cfg e) lastCheck data \<noteq> []"
    and "fst (sync e lastCheck) = Some (Inr c)"
  shows "fst (run (sendWebhook e) (filteredData (cfg e) lastCheck data)) = Some None"
    and "c = Max (updatedAt ` set data)"
proof -
  obtain res ps where r: "run (sendWebhook e) (filteredData (cfg e) lastCheck data) = (res, ps)"
    by (cases "run (sendWebhook e) (filteredData (cfg e) lastCheck data)")
  from assms(2) have ne: "data \<noteq> []" by (auto simp: filteredData_Nil_iff)
  from assms r have "res = Some None \<and> done_sync data = Inr c"
    by (auto simp: sync_def split: option.splits)
  then show "fst (run (sendWebhook e) (filteredData (cfg e) lastCheck data)) = Some None"
    and "c = Max (updatedAt ` set data)"
    using r ne by (simp_all add: done_sync_Max)
qed

lemma sync_all_ok:
  assumes "get_recordings e lastCheck = Inr data"
    and "filteredData (cfg e) lastCheck data \<noteq> []"
    and "\<forall>r \<in> set (filteredData (cfg e) lastCheck data). cb_called (sendWebhook e r) = Some None"
  shows "sync e lastCheck =
           (Some (Inr (Max (updatedAt ` set data))),
            concat (map (\<lambda>r. posted (sendWebhook e r)) (filteredData (cfg e) lastCheck data)))"
proof -
  from assms(2) have ne: "data \<noteq> []" by (auto simp: filteredData_Nil_iff)
  show ?thesis
    using assms(1,2) run_all_ok [of "filteredData (cfg e) lastCheck data" "sendWebhook e"] assms(3)
    by (simp add: sync_def done_sync_Max [OF ne])
qed

lemma sync_error:
  assumes "get_recordings e lastCheck = Inr data"
    and "r \<in> set data" and "filterRecord (cfg e) lastCheck r"
    and "cb_called (sendWebhook e r) = Some (Some err)"
  shows "\<exists>err'. fst (sync e lastCheck) = Some (Inl err')"
proof -
  let ?fd = "filteredData (cfg e) lastCheck data"
  from assms(2,3) have mem: "r \<in> set ?fd" by (simp add: set_filteredData)
  then have ne: "?fd \<noteq> []" by auto
  have "\<forall>t \<in> set ?fd. cb_called (sendWebhook e t) \<noteq> None"
    by (simp add: sendWebhook_calls_back)
  with run_error [of r ?fd "sendWebhook e" err] mem assms(4) obtain err' where
    "fst (run (sendWebhook e) ?fd) = Some (Some err')"
    by blast
  with assms(1) ne show ?thesis
    by (cases "run (sendWebhook e) ?fd") (auto simp: sync_def)
qed

lemma sync_first_error:
  assumes "get_recordings e lastCheck = Inr data"
    and "filteredData (cfg e) lastCheck data = pre @ r # post"
    and "\<forall>x \<in> set pre. cb_called (sendWebhook e x) = Some None"
    and "cb_called (sendWebhook e r) = Some (Some err)"
  shows "sync e lastCheck =
           (Some (Inl err),
            concat (map (\<lambda>x. posted (sendWebhook e x)) pre) @ posted (sendWebhook e r))"
  using assms(1,2) run_first_error [of pre "sendWebhook e" r err post] assms(3,4)
  by (simp add: sync_def)



section \<open>The claims\<close>

text \<open>
  Claim C1. When the fetch succeeds, some fetched recording passes the filter and the
  cycle ends without error, the checkpoint handed to the callback is the largest
  \<open>updatedAt\<close> among all fetched recordings: those the filter excluded and those
  skipped after a failed fetch count as well.
\<close>

theorem sync_checkpoint_is_max:
  assumes "get_recordings e lastCheck = Inr data"
    and "filteredData (cfg e) lastCheck data \<noteq> []"
    and "fst (sync e lastCheck) = Some (Inr c)"
  shows "c = Max (updatedAt ` set data) \<and> (\<forall>r \<in> set data. updatedAt r \<le> c)"
  using sync_success(2) [OF assms] by simp

theorem sync_checkpoint_is_max_witness:
  "get_recordings demo 50 = Inr demo_data \<and>
   filteredData (cfg demo) 50 demo_data \<noteq> [] \<and>
   fst (sync demo 50) = Some (Inr 900) \<and>
   \<not> filterRecord (cfg demo) 50 rec_call \<and> updatedAt rec_call = 900 \<and>
   900 = Max (updatedAt ` set demo_data) \<and> list_all (\<lambda>r. updatedAt r \<le> 900) demo_data"
proof -
  have h1: "get_recordings demo 50 = Inr demo_data" by code_simp
  have h2: "filteredData (cfg demo) 50 demo_data \<noteq> []" by code_simp
  have h3: "fst (sync demo 50) = Some (Inr 900)" by code_simp
  have h4: "\<not> filterRecord (cfg demo) 50 rec_call \<and> updatedAt rec_call = 900" by code_simp
  from sync_checkpoint_is_max [OF h1 h2 h3]
  have "900 = Max (updatedAt ` set demo_data) \<and> list_all (\<lambda>r. updatedAt r \<le> 900) demo_data"
    unfolding list_all_iff .
  then show ?thesis using h1 h2 h3 h4 by blast
qed

text \<open>
  Claim C2. \<open>filterRecord\<close> accepts a recording exactly when its type is email, note or
  comment, it is visible to everyone while \<open>showEveryone\<close> is set or its group is one
  of \<open>config.groups\<close>, and it was created strictly after the checkpoint; a recording
  created exactly at the checkpoint is rejected.
\<close>

theorem filterRecord_iff:
  "(filterRecord c lastCheck r \<longleftrightarrow>
      (rtype r = ''email'' \<or> rtype r = ''note'' \<or> rtype r = ''comment'') \<and>
      ((visibleTo r = ''Everyone'' \<and> showEveryone c) \<or> groupId r \<in> set (groups c)) \<and>
      createdAt r > lastCheck)
   \<and> \<not> filterRecord c (createdAt r) r"
proof -
  have recognised: "includes_js (map fst recordingTypes) (rtype r) \<longleftrightarrow>
      rtype r = ''email'' \<or> rtype r = ''note'' \<or> rtype r = ''comment''"
    by (auto simp: includes_js_set recordingTypes_def)
  have in_group: "indexOf (groups c) (groupId r) > -1 \<longleftrightarrow> groupId r \<in> set (groups c)"
    by (rule indexOf_found)
  have "filterRecord c lastCheck r \<longleftrightarrow>
      (rtype r = ''email'' \<or> rtype r = ''note'' \<or> rtype r = ''comment'') \<and>
      ((visibleTo r = ''Everyone'' \<and> showEveryone c) \<or> groupId r \<in> set (groups c)) \<and>
      createdAt r > lastCheck"
    unfolding filterRecord_def recognised in_group ..
  moreover have "\<not> filterRecord c (createdAt r) r"
    by (simp add: filterRecord_def)
  ultimately show ?thesis ..
qed




text \<open>
  Claim C4. When \<open>request\<close> hands an error to its callback for a candidate's payload, the
  callback of \<open>sync\<close> receives an error and no checkpoint; when the candidates before it
  all called back without error, it receives this very error, and the payloads posted
  before stay posted. A response, whatever its status code, is no error for the code: the
  candidate's step calls back without error and, when no other candidate calls back with
  one, \<open>sync\<close> returns the new checkpoint.
\<close>

theorem delivery_error_propagates:
  assumes "get_recordings e lastCheck = Inr data"
    and "r \<in> set data" and "filterRecord (cfg e) lastCheck r"
    and "get_entity e (''users/'' @ authorId r @ ''.xml'') = Inr a"
    and "fst (getSubject (get_entity e) (subjectId r) (getSubjectPath (subjectType r))) = Inr s"
    and "formatWebhook e (r\<lparr>author := Some a, subject := Some s\<rparr>) = Inr p"
  shows "(\<forall>err. request e p = Inl err \<longrightarrow>
            (\<exists>err'. fst (sync e lastCheck) = Some (Inl err')) \<and>
            (\<forall>pre post. filteredData (cfg e) lastCheck data = pre @ r # post \<and>
                 (\<forall>x \<in> set pre. cb_called (sendWebhook e x) = Some None) \<longrightarrow>
               sync e lastCheck =
                 (Some (Inl err), concat (map (\<lambda>x. posted (sendWebhook e x)) pre) @ [p]))) \<and>
         (\<forall>status. request e p = Inr status \<longrightarrow>
            cb_called (sendWebhook e r) = Some None \<and> posted (sendWebhook e r) = [p] \<and>
            ((\<forall>x \<in> set data. filterRecord (cfg e) lastCheck x \<longrightarrow>
                 cb_called (sendWebhook e x) = Some None) \<longrightarrow>
               fst (sync e lastCheck) = Some (Inr (Max (updatedAt ` set data)))))"
proof (intro conjI allI impI)
  fix err assume failed: "request e p = Inl err"
  have out: "cb_called (sendWebhook e r) = Some (Some err)" "posted (sendWebhook e r) = [p]"
    using assms(4-6) failed by (simp_all add: sendWebhook_both_ok)
  show "\<exists>err'. fst (sync e lastCheck) = Some (Inl err')"
    using assms(1-3) out(1) by (rule sync_error)
  fix pre post
  assume "filteredData (cfg e) lastCheck data = pre @ r # post \<and>
     (\<forall>x \<in> set pre. cb_called (sendWebhook e x) = Some None)"
  then have d: "filteredData (cfg e) lastCheck data = pre @ r # post"
    and ok: "\<forall>x \<in> set pre. cb_called (sendWebhook e x) = Some None"
    by simp_all
  show "sync e lastCheck =
      (Some (Inl err), concat (map (\<lambda>x. posted (sendWebhook e x)) pre) @ [p])"
    using sync_first_error [OF assms(1) d ok out(1)] out(2) by simp
next
  fix status assume answered: "request e p = Inr status"
  show "cb_called (sendWebhook e r) = Some None" "posted (sendWebhook e r) = [p]"
    using assms(4-6) answered by (simp_all add: sendWebhook_both_ok)
  assume "\<forall>x \<in> set data. filterRecord (cfg e) lastCheck x \<longrightarrow>
      cb_called (sendWebhook e x) = Some None"
  then have all_ok: "\<forall>x \<in> set (filteredData (cfg e) lastCheck data).
      cb_called (sendWebhook e x) = Some None"
    by (simp add: set_filteredData)
  have ne: "filteredData (cfg e) lastCheck data \<noteq> []"
    using assms(2,3) by (auto simp: filteredData_Nil_iff)
  show "fst (sync e lastCheck) = Some (Inr (Max (updatedAt ` set data)))"
    using sync_all_ok [OF assms(1) ne all_ok] by simp
qed

theorem delivery_error_propagates_witness:
  "get_recordings demo_down 50 = Inr demo_data \<and> rec_email \<in> set demo_data \<and>
   filterRecord (cfg demo_down) 50 rec_email \<and>
   get_entity demo_down (''users/'' @ authorId rec_email @ ''.xml'') = Inr ann \<and>
   fst (getSubject (get_entity demo_down) (subjectId rec_email)
          (getSubjectPath (subjectType rec_email))) = Inr acme \<and>
   formatWebhook demo_down (rec_email\<lparr>author := Some ann, subject := Some acme\<rparr>)
     = Inr email_payload \<and>
   request demo_down email_payload = Inl (DeliveryError ''ECONNREFUSED'') \<and>
   filteredData (cfg demo_down) 50 demo_data = [] @ rec_email # [rec_orphan, rec_note] \<and>
   sync demo_down 50 = (Some (Inl (DeliveryError ''ECONNREFUSED'')), [email_payload]) \<and>
   get_recordings demo_500 50 = Inr demo_data \<and>
   filterRecord (cfg demo_500) 50 rec_email \<and>
   get_entity demo_500 (''users/'' @ authorId rec_email @ ''.xml'') = Inr ann \<and>
   fst (getSubject (get_entity demo_500) (subjectId rec_email)
          (getSubjectPath (subjectType rec_email))) = Inr acme \<and>
   formatWebhook demo_500 (rec_email\<lparr>author := Some ann, subject := Some acme\<rparr>)
     = Inr email_payload \<and>
   request demo_500 email_payload = Inr 500 \<and>
   list_all (\<lambda>x. filterRecord (cfg demo_500) 50 x \<longrightarrow>
               cb_called (sendWebhook demo_500 x) = Some None) demo_data \<and>
   cb_called (sendWebhook demo_500 rec_email) = Some None \<and>
   posted (sendWebhook demo_500 rec_email) = [email_payload] \<and>
   fst (sync demo_500 50) = Some (Inr (Max (updatedAt ` set demo_data)))"
proof -
  have h1: "get_recordings demo_down 50 = Inr demo_data" by code_simp
  have h2: "rec_email \<in> set demo_data" by code_simp
  have h3: "filterRecord (cfg demo_down) 50 rec_email" by code_simp
  have h4: "get_entity demo_down (''users/'' @ authorId rec_email @ ''.xml'') = Inr ann"
    by code_simp
  have h5: "fst (getSubject (get_entity demo_down) (subjectId rec_email)
          (getSubjectPath (subjectType rec_email))) = Inr acme"
    by code_simp
  have h6: "formatWebhook demo_down (rec_email\<lparr>author := Some ann, subject := Some acme\<rparr>)
     = Inr email_payload"
    by code_simp
  have h7: "request demo_down email_payload = Inl (DeliveryError ''ECONNREFUSED'')"
    by code_simp
  have h8: "filteredData (cfg demo_down) 50 demo_data = [] @ rec_email # [rec_orphan, rec_note]"
    by code_simp
  have none: "\<forall>x \<in> set []. cb_called (sendWebhook demo_down x) = Some None" by simp
  note down = delivery_error_propagates [OF h1 h2 h3 h4 h5 h6, THEN conjunct1, rule_format, OF h7]
  have "sync demo_down 50 =
      (Some (Inl (DeliveryError ''ECONNREFUSED'')),
       concat (map (\<lambda>x. posted (sendWebhook demo_down x)) []) @ [email_payload])"
    using down [THEN conjunct2, rule_format, of "[]" "[rec_orphan, rec_note]"] h8 none
    by (rule_tac mp) auto
  then have a: "sync demo_down 50 = (Some (Inl (DeliveryError ''ECONNREFUSED'')), [email_payload])"
    by simp
  have k1: "get_recordings demo_500 50 = Inr demo_data" by code_simp
  have k3: "filterRecord (cfg demo_500) 50 rec_email" by code_simp
  have k4: "get_entity demo_500 (''users/'' @ authorId rec_email @ ''.xml'') = Inr ann"
    by code_simp
  have k5: "fst (getSubject (get_entity demo_500) (subjectId rec_email)
          (getSubjectPath (subjectType rec_email))) = Inr acme"
    by code_simp
  have k6: "formatWebhook demo_500 (rec_email\<lparr>author := Some ann, subject := Some acme\<rparr>)
     = Inr email_payload"
    by code_simp
  have k7: "request demo_500 email_payload = Inr 500" by code_simp
  have k8: "\<forall>x \<in> set demo_data. filterRecord (cfg demo_500) 50 x \<longrightarrow>
      cb_called (sendWebhook demo_500 x) = Some None"
    by code_simp
  have k8': "list_all (\<lambda>x. filterRecord (cfg demo_500) 50 x \<longrightarrow>
      cb_called (sendWebhook demo_500 x) = Some None) demo_data"
    unfolding list_all_iff by (rule k8)
  note answered =
    delivery_error_propagates [OF k1 h2 k3 k4 k5 k6, THEN conjunct2, rule_format, OF k7]
  have b: "cb_called (sendWebhook demo_500 rec_email) = Some None"
    using answered by (rule conjunct1)
  have c: "posted (sendWebhook demo_500 rec_email) = [email_payload]"
    using answered [THEN conjunct2] by (rule conjunct1)
  have d: "fst (sync demo_500 50) = Some (Inr (Max (updatedAt ` set demo_data)))"
    using answered [THEN conjunct2, THEN conjunct2] k8 by (rule mp)
  show ?thesis
    by (intro conjI h1 h2 h3 h4 h5 h6 h7 h8 a k1 k3 k4 k5 k6 k7 k8' b c d)
qed

theorem delivery_error_counterexample:
  "request demo_500 email_payload = Inr 500 \<and>
   spec_delivery_error (request demo_500 email_payload) \<and>
   request demo_500 note_payload = Inr 500 \<and>
   spec_delivery_error (request demo_500 note_payload) \<and>
   sync demo_500 50 = (Some (Inr 900), [email_payload, note_payload])"
  by code_simp

text \<open>
  Claim C5. A recording whose body cannot be parsed is not skipped: \<open>formatWebhook\<close> hands the
  parser's error to the callback of \<open>sendWebhook\<close>, which hands it on, so that no payload
  is posted for the recording, the callback of \<open>sync\<close> receives an error and no
  checkpoint, and, when the candidates before it all called back without error, the
  error is the parser's and the candidates after it are not processed.
\<close>

theorem parse_error_propagates:
  assumes "get_recordings e lastCheck = Inr data"
    and "r \<in> set data" and "filterRecord (cfg e) lastCheck r"
    and "get_entity e (''users/'' @ authorId r @ ''.xml'') = Inr a"
    and "fst (getSubject (get_entity e) (subjectId r) (getSubjectPath (subjectType r))) = Inr s"
    and "rtype r \<noteq> ''note''"
    and "simpleParser e (''Content-Type: text/plain; charset=UTF-8'' @ [CHR 0x0A, CHR 0x0A]
           @ body r) = Inl err"
  shows "cb_called (sendWebhook e r) = Some (Some err) \<and> posted (sendWebhook e r) = [] \<and>
         (\<exists>err'. fst (sync e lastCheck) = Some (Inl err')) \<and>
         (\<forall>pre post. filteredData (cfg e) lastCheck data = pre @ r # post \<and>
              (\<forall>x \<in> set pre. cb_called (sendWebhook e x) = Some None) \<longrightarrow>
            sync e lastCheck =
              (Some (Inl err), concat (map (\<lambda>x. posted (sendWebhook e x)) pre)))"
proof -
  have "parseBody (simpleParser e) (r\<lparr>author := Some a, subject := Some s\<rparr>) = Inl err"
    using assms(6,7) by (simp add: parseBody_def)
  then have "formatWebhook e (r\<lparr>author := Some a, subject := Some s\<rparr>) = Inl err"
    by (simp add: formatWebhook_parse_fails)
  then have out: "cb_called (sendWebhook e r) = Some (Some err)" "posted (sendWebhook e r) = []"
    using assms(4,5) by (simp_all add: sendWebhook_both_ok)
  have "\<exists>err'. fst (sync e lastCheck) = Some (Inl err')"
    using assms(1-3) out(1) by (rule sync_error)
  moreover have "sync e lastCheck =
      (Some (Inl err), concat (map (\<lambda>x. posted (sendWebhook e x)) pre))"
    if "filteredData (cfg e) lastCheck data = pre @ r # post"
      and "\<forall>x \<in> set pre. cb_called (sendWebhook e x) = Some None" for pre post
    using sync_first_error [OF assms(1) that out(1)] out(2) by simp
  ultimately show ?thesis using out by blast
qed

theorem parse_error_propagates_witness:
  "get_recordings demo_unparsable 50 = Inr demo_data \<and> rec_email \<in> set demo_data \<and>
   filterRecord (cfg demo_unparsable) 50 rec_email \<and>
   get_entity demo_unparsable (''users/'' @ authorId rec_email @ ''.xml'') = Inr ann \<and>
   fst (getSubject (get_entity demo_unparsable) (subjectId rec_email)
          (getSubjectPath (subjectType rec_email))) = Inr acme \<and>
   rtype rec_email \<noteq> ''note'' \<and>
   simpleParser demo_unparsable
     (''Content-Type: text/plain; charset=UTF-8'' @ [CHR 0x0A, CHR 0x0A] @ body rec_email)
     = Inl (ParseError ''malformed message'') \<and>
   cb_called (sendWebhook demo_unparsable rec_email) = Some (Some (ParseError ''malformed message'')) \<and>
   posted (sendWebhook demo_unparsable rec_email) = [] \<and>
   (\<exists>err'. fst (sync demo_unparsable 50) = Some (Inl err'))"
proof -
  have h1: "get_recordings demo_unparsable 50 = Inr demo_data" by code_simp
  have h2: "rec_email \<in> set demo_data" by code_simp
  have h3: "filterRecord (cfg demo_unparsable) 50 rec_email" by code_simp
  have h4: "get_entity demo_unparsable (''users/'' @ authorId rec_email @ ''.xml'') = Inr ann"
    by code_simp
  have h5: "fst (getSubject (get_entity demo_unparsable) (subjectId rec_email)
          (getSubjectPath (subjectType rec_email))) = Inr acme"
    by code_simp
  have h6: "rtype rec_email \<noteq> ''note''" by code_simp
  have h7: "simpleParser demo_unparsable
     (''Content-Type: text/plain; charset=UTF-8'' @ [CHR 0x0A, CHR 0x0A] @ body rec_email)
     = Inl (ParseError ''malformed message'')"
    by code_simp
  show ?thesis
    using parse_error_propagates [OF h1 h2 h3 h4 h5 h6 h7] h1 h2 h3 h4 h5 h6 h7 by blast
qed

theorem parse_error_counterexample:
  "filterRecord (cfg demo_unparsable) 50 rec_email \<and>
   filterRecord (cfg demo_unparsable) 50 rec_note \<and>
   simpleParser demo_unparsable
     (''Content-Type: text/plain; charset=UTF-8'' @ [CHR 0x0A, CHR 0x0A] @ body rec_email)
     = Inl (ParseError ''malformed message'') \<and>
   sync demo_unparsable 50 = (Some (Inl (ParseError ''malformed message'')), [])"
  by code_simp

text \<open>
  Claim C6. \<open>getSubjectPath\<close> maps Party to people, Deal to deals, Kase to kases and every
  other type to people. \<open>getSubject\<close> on the path people requests people once and, when
  that fails, companies once, and its result is the result of the second request; on any
  other path a failure is handed on after the one request.
\<close>

theorem subject_resolver:
  "getSubjectPath ''Party'' = ''people'' \<and>
   getSubjectPath ''Deal'' = ''deals'' \<and>
   getSubjectPath ''Kase'' = ''kases'' \<and>
   (t \<noteq> ''Party'' \<and> t \<noteq> ''Deal'' \<and> t \<noteq> ''Kase'' \<longrightarrow> getSubjectPath t = ''people'') \<and>
   (get (''people/'' @ sid @ ''.xml'') = Inr s \<longrightarrow>
      getSubject get sid ''people'' = (Inr s, [''people/'' @ sid @ ''.xml''])) \<and>
   (get (''people/'' @ sid @ ''.xml'') = Inl err \<longrightarrow>
      getSubject get sid ''people'' =
        (get (''companies/'' @ sid @ ''.xml''),
         [''people/'' @ sid @ ''.xml'', ''companies/'' @ sid @ ''.xml''])) \<and>
   (p \<noteq> ''people'' \<and> get (p @ ''/'' @ sid @ ''.xml'') = Inl err \<longrightarrow>
      getSubject get sid p = (Inl err, [p @ ''/'' @ sid @ ''.xml'']))"
  using getSubject_other [of p get sid] getSubject_people_ok [of get sid s]
    getSubject_people_retry [of get sid err]
  by (simp add: getSubjectPath_def)

theorem subject_resolver_witness:
  "(''Milestone'' \<noteq> ''Party'' \<and> ''Milestone'' \<noteq> ''Deal'' \<and> ''Milestone'' \<noteq> ''Kase'') \<and>
   getSubjectPath ''Milestone'' = ''people'' \<and>
   demo_crm (''people/'' @ ''2'' @ ''.xml'') = Inr bo \<and>
   getSubject demo_crm ''2'' ''people'' = (Inr bo, [''people/'' @ ''2'' @ ''.xml'']) \<and>
   demo_crm (''people/'' @ ''5'' @ ''.xml'') = Inl (FetchError ''404'') \<and>
   demo_crm (''companies/'' @ ''5'' @ ''.xml'') = Inr acme \<and>
   getSubject demo_crm ''5'' ''people'' =
     (Inr acme, [''people/'' @ ''5'' @ ''.xml'', ''companies/'' @ ''5'' @ ''.xml'']) \<and>
   demo_crm (''people/'' @ ''1'' @ ''.xml'') = Inl (FetchError ''404'') \<and>
   demo_crm (''companies/'' @ ''1'' @ ''.xml'') = Inl (FetchError ''404'') \<and>
   getSubject demo_crm ''1'' ''people'' =
     (Inl (FetchError ''404''), [''people/'' @ ''1'' @ ''.xml'', ''companies/'' @ ''1'' @ ''.xml'']) \<and>
   ''deals'' \<noteq> ''people'' \<and>
   demo_crm (''deals'' @ ''/'' @ ''1'' @ ''.xml'') = Inl (FetchError ''404'') \<and>
   getSubject demo_crm ''1'' ''deals'' = (Inl (FetchError ''404''), [''deals'' @ ''/'' @ ''1'' @ ''.xml''])"
proof -
  have h1: "''Milestone'' \<noteq> ''Party'' \<and> ''Milestone'' \<noteq> ''Deal'' \<and> ''Milestone'' \<noteq> ''Kase''"
    by simp
  have h2: "demo_crm (''people/'' @ ''2'' @ ''.xml'') = Inr bo" by code_simp
  have h3: "demo_crm (''people/'' @ ''5'' @ ''.xml'') = Inl (FetchError ''404'')" by code_simp
  have h4: "demo_crm (''companies/'' @ ''5'' @ ''.xml'') = Inr acme" by code_simp
  have h5: "demo_crm (''people/'' @ ''1'' @ ''.xml'') = Inl (FetchError ''404'')" by code_simp
  have h6: "demo_crm (''companies/'' @ ''1'' @ ''.xml'') = Inl (FetchError ''404'')" by code_simp
  have h7: "''deals'' \<noteq> ''people'' \<and>
      demo_crm (''deals'' @ ''/'' @ ''1'' @ ''.xml'') = Inl (FetchError ''404'')"
    by code_simp
  note ok =
    subject_resolver [of "''Milestone''" demo_crm "''2''" bo "FetchError ''404''" "''deals''"]
  note retry =
    subject_resolver [of "''Milestone''" demo_crm "''5''" bo "FetchError ''404''" "''deals''"]
  note failing =
    subject_resolver [of "''Milestone''" demo_crm "''1''" bo "FetchError ''404''" "''deals''"]
  note fallback_type = ok [THEN conjunct2, THEN conjunct2, THEN conjunct2, THEN conjunct1]
  note people_ok =
    ok [THEN conjunct2, THEN conjunct2, THEN conjunct2, THEN conjunct2, THEN conjunct1]
  note people_retry =
    retry [THEN conjunct2, THEN conjunct2, THEN conjunct2, THEN conjunct2, THEN conjunct2,
      THEN conjunct1]
  note people_fail =
    failing [THEN conjunct2, THEN conjunct2, THEN conjunct2, THEN conjunct2, THEN conjunct2,
      THEN conjunct1]
  note other_fail =
    failing [THEN conjunct2, THEN conjunct2, THEN conjunct2, THEN conjunct2, THEN conjunct2,
      THEN conjunct2]
  have a: "getSubjectPath ''Milestone'' = ''people''"
    using fallback_type h1 by (rule mp)
  have b: "getSubject demo_crm ''2'' ''people'' = (Inr bo, [''people/'' @ ''2'' @ ''.xml''])"
    using people_ok h2 by (rule mp)
  have "getSubject demo_crm ''5'' ''people'' =
      (demo_crm (''companies/'' @ ''5'' @ ''.xml''),
       [''people/'' @ ''5'' @ ''.xml'', ''companies/'' @ ''5'' @ ''.xml''])"
    using people_retry h3 by (rule mp)
  then have c: "getSubject demo_crm ''5'' ''people'' =
      (Inr acme, [''people/'' @ ''5'' @ ''.xml'', ''companies/'' @ ''5'' @ ''.xml''])"
    by (simp only: h4)
  have "getSubject demo_crm ''1'' ''people'' =
      (demo_crm (''companies/'' @ ''1'' @ ''.xml''),
       [''people/'' @ ''1'' @ ''.xml'', ''companies/'' @ ''1'' @ ''.xml''])"
    using people_fail h5 by (rule mp)
  then have d: "getSubject demo_crm ''1'' ''people'' =
      (Inl (FetchError ''404''), [''people/'' @ ''1'' @ ''.xml'', ''companies/'' @ ''1'' @ ''.xml''])"
    by (simp only: h6)
  have e: "getSubject demo_crm ''1'' ''deals'' =
      (Inl (FetchError ''404''), [''deals'' @ ''/'' @ ''1'' @ ''.xml''])"
    using other_fail h7 by (rule mp)
  show ?thesis
    by (intro conjI a b c d e h2 h3 h4 h5 h6 h1 [THEN conjunct1] h1 [THEN conjunct2, THEN conjunct1]
        h1 [THEN conjunct2, THEN conjunct2] h7 [THEN conjunct1] h7 [THEN conjunct2])
qed

text \<open>
  Claim C7. For a note \<open>parseBody\<close> returns the body as it is, whatever the parser would do.
  For any other type it parses the body behind the plain-text header and returns the
  parsed text when that is not empty, the raw body otherwise, hence the empty string when
  both are empty; it fails only when the parser fails.
\<close>

theorem parseBody_rule:
  "(rtype r = ''note'' \<longrightarrow> parseBody parser r = Inr (body r)) \<and>
   (rtype r \<noteq> ''note'' \<and>
    parser (''Content-Type: text/plain; charset=UTF-8'' @ [CHR 0x0A, CHR 0x0A] @ body r) = Inr m \<longrightarrow>
      (\<forall>t. mail_text m = Some t \<and> t \<noteq> [] \<longrightarrow> parseBody parser r = Inr t) \<and>
      (mail_text m = None \<or> mail_text m = Some [] \<longrightarrow> parseBody parser r = Inr (body r)) \<and>
      ((mail_text m = None \<or> mail_text m = Some []) \<and> body r = [] \<longrightarrow>
         parseBody parser r = Inr [])) \<and>
   (\<forall>err. parseBody parser r = Inl err \<longrightarrow>
      rtype r \<noteq> ''note'' \<and>
      parser (''Content-Type: text/plain; charset=UTF-8'' @ [CHR 0x0A, CHR 0x0A] @ body r) = Inl err)"
proof (intro conjI impI allI)
  assume "rtype r = ''note''"
  then show "parseBody parser r = Inr (body r)" by (simp add: parseBody_def)
next
  assume parsed: "rtype r \<noteq> ''note'' \<and>
    parser (''Content-Type: text/plain; charset=UTF-8'' @ [CHR 0x0A, CHR 0x0A] @ body r) = Inr m"
  then have res: "parseBody parser r = Inr (or_str (or_undef (mail_text m) (body r)) [])"
    by (simp add: parseBody_def)
  show "parseBody parser r = Inr t" if "mail_text m = Some t \<and> t \<noteq> []" for t
    using that res by (simp add: or_str_def)
  show raw: "parseBody parser r = Inr (body r)" if "mail_text m = None \<or> mail_text m = Some []"
    using that res by (auto simp: or_str_def)
  show "parseBody parser r = Inr []"
    if "(mail_text m = None \<or> mail_text m = Some []) \<and> body r = []"
    using that raw by simp
next
  fix err assume failed: "parseBody parser r = Inl err"
  then show "rtype r \<noteq> ''note''" by (auto simp: parseBody_def)
  with failed
  show "parser (''Content-Type: text/plain; charset=UTF-8'' @ [CHR 0x0A, CHR 0x0A] @ body r) = Inl err"
    by (simp add: parseBody_def split: sum.splits)
qed

theorem parseBody_rule_witness:
  "rtype rec_note = ''note'' \<and> parseBody failing_parser rec_note = Inr (body rec_note) \<and>
   rtype rec_email \<noteq> ''note'' \<and>
   demo_parser (''Content-Type: text/plain; charset=UTF-8'' @ [CHR 0x0A, CHR 0x0A] @ body rec_email)
     = Inr \<lparr>mail_text = Some ''Hello''\<rparr> \<and>
   mail_text \<lparr>mail_text = Some ''Hello''\<rparr> = Some ''Hello'' \<and> ''Hello'' \<noteq> [] \<and>
   parseBody demo_parser rec_email = Inr ''Hello'' \<and>
   empty_parser (''Content-Type: text/plain; charset=UTF-8'' @ [CHR 0x0A, CHR 0x0A] @ body rec_email)
     = Inr \<lparr>mail_text = None\<rparr> \<and>
   mail_text \<lparr>mail_text = None\<rparr> = None \<and>
   parseBody empty_parser rec_email = Inr (body rec_email) \<and>
   rtype rec_call \<noteq> ''note'' \<and> body rec_call = [] \<and>
   empty_parser (''Content-Type: text/plain; charset=UTF-8'' @ [CHR 0x0A, CHR 0x0A] @ body rec_call)
     = Inr \<lparr>mail_text = None\<rparr> \<and>
   parseBody empty_parser rec_call = Inr [] \<and>
   parseBody failing_parser rec_email = Inl (ParseError ''malformed message'') \<and>
   failing_parser (''Content-Type: text/plain; charset=UTF-8'' @ [CHR 0x0A, CHR 0x0A] @ body rec_email)
     = Inl (ParseError ''malformed message'')"
proof -
  have h1: "rtype rec_note = ''note''" by code_simp
  have h2: "rtype rec_email \<noteq> ''note'' \<and>
     demo_parser (''Content-Type: text/plain; charset=UTF-8'' @ [CHR 0x0A, CHR 0x0A] @ body rec_email)
       = Inr \<lparr>mail_text = Some ''Hello''\<rparr>"
    by code_simp
  have h3: "mail_text \<lparr>mail_text = Some ''Hello''\<rparr> = Some ''Hello'' \<and> ''Hello'' \<noteq> []"
    by simp
  have h4: "empty_parser (''Content-Type: text/plain; charset=UTF-8'' @ [CHR 0x0A, CHR 0x0A] @ body rec_email)
     = Inr \<lparr>mail_text = None\<rparr>"
    by code_simp
  have h5: "mail_text \<lparr>mail_text = None\<rparr> = None" by simp
  have h6: "rtype rec_call \<noteq> ''note'' \<and> body rec_call = [] \<and>
     empty_parser (''Content-Type: text/plain; charset=UTF-8'' @ [CHR 0x0A, CHR 0x0A] @ body rec_call)
       = Inr \<lparr>mail_text = None\<rparr>"
    by code_simp
  have h7: "parseBody failing_parser rec_email = Inl (ParseError ''malformed message'')"
    by code_simp
  from parseBody_rule [of rec_note failing_parser] h1
  have a: "parseBody failing_parser rec_note = Inr (body rec_note)" by blast
  from parseBody_rule [of rec_email demo_parser "\<lparr>mail_text = Some ''Hello''\<rparr>"] h2 h3
  have b: "parseBody demo_parser rec_email = Inr ''Hello''" by blast
  from parseBody_rule [of rec_email empty_parser "\<lparr>mail_text = None\<rparr>"] h2 h4 h5
  have c: "parseBody empty_parser rec_email = Inr (body rec_email)" by blast
  from parseBody_rule [of rec_call empty_parser "\<lparr>mail_text = None\<rparr>"] h5 h6
  have d: "parseBody empty_parser rec_call = Inr []" by blast
  from parseBody_rule [of rec_email failing_parser] h7
  have e: "failing_parser (''Content-Type: text/plain; charset=UTF-8'' @ [CHR 0x0A, CHR 0x0A] @ body rec_email)
     = Inl (ParseError ''malformed message'')"
    by blast
  show ?thesis using h1 h2 h3 h4 h5 h6 h7 a b c d e by blast
qed

text \<open>
  Claim C8. When the cycle ends without error and every fetched recording that passes the
  filter has \<open>updatedAt\<close> at or after its \<open>createdAt\<close>, the returned checkpoint is at
  least the one passed in. Without the condition on the data it can be smaller.
\<close>

theorem sync_monotone:
  assumes "get_recordings e lastCheck = Inr data"
    and "\<forall>r \<in> set data. filterRecord (cfg e) lastCheck r \<longrightarrow> createdAt r \<le> updatedAt r"
    and "fst (sync e lastCheck) = Some (Inr c)"
  shows "lastCheck \<le> c"
proof (cases "filteredData (cfg e) lastCheck data = []")
  case True
  with assms(1,3) show ?thesis by (simp add: sync_no_candidates)
next
  case False
  then obtain r where r: "r \<in> set data" "filterRecord (cfg e) lastCheck r"
    by (auto simp: filteredData_Nil_iff)
  then have "lastCheck < createdAt r" by (simp add: filterRecord_def)
  moreover have "createdAt r \<le> updatedAt r" using assms(2) r by blast
  moreover have "updatedAt r \<le> c"
    using sync_success(2) [OF assms(1) False assms(3)] r(1) by simp
  ultimately show ?thesis by simp
qed

theorem sync_monotone_witness:
  "get_recordings demo 50 = Inr demo_data \<and>
   list_all (\<lambda>r. filterRecord (cfg demo) 50 r \<longrightarrow> createdAt r \<le> updatedAt r) demo_data \<and>
   fst (sync demo 50) = Some (Inr 900) \<and> (50::int) \<le> 900"
proof -
  have h1: "get_recordings demo 50 = Inr demo_data" by code_simp
  have h2: "\<forall>r \<in> set demo_data. filterRecord (cfg demo) 50 r \<longrightarrow> createdAt r \<le> updatedAt r"
    by code_simp
  have h3: "fst (sync demo 50) = Some (Inr 900)" by code_simp
  have h2': "list_all (\<lambda>r. filterRecord (cfg demo) 50 r \<longrightarrow> createdAt r \<le> updatedAt r)
      demo_data"
    unfolding list_all_iff by (rule h2)
  show ?thesis using sync_monotone [OF h1 h2 h3] h1 h2' h3 by blast
qed

theorem sync_monotone_counterexample:
  "fst (sync demo_backdated 60) = Some (Inr 50) \<and> \<not> (60::int) \<le> 50"
  by code_simp

text \<open>
  Claim C9. When no fetched recording passes the filter, in particular when none was created
  after the checkpoint, \<open>sync\<close> returns the checkpoint it was given and posts nothing; a
  second call with the returned checkpoint does the same. After a cycle that returned a
  checkpoint, a cycle started from that checkpoint whose fetch brings only recordings of
  the first fetch returns the same checkpoint and posts nothing, provided each of these
  recordings was updated at or after its creation. Without that condition on the data
  the second cycle can post again.
\<close>

theorem sync_idempotent:
  assumes "get_recordings e c = Inr data"
  shows "(filteredData (cfg e) c data = [] \<longrightarrow> sync e c = (Some (Inr c), [])) \<and>
         ((\<forall>r \<in> set data. createdAt r \<le> c) \<longrightarrow>
            sync e c = (Some (Inr c), []) \<and>
            (\<forall>c'. fst (sync e c) = Some (Inr c') \<longrightarrow> sync e c' = (Some (Inr c'), []))) \<and>
         (\<forall>c1 data1. fst (sync e c) = Some (Inr c1) \<and> get_recordings e c1 = Inr data1 \<and>
              set data1 \<subseteq> set data \<and> (\<forall>r \<in> set data1. createdAt r \<le> updatedAt r) \<longrightarrow>
            sync e c1 = (Some (Inr c1), []))"
proof (intro conjI impI allI)
  assume "filteredData (cfg e) c data = []"
  with assms show "sync e c = (Some (Inr c), [])" by (rule sync_no_candidates)
next
  assume old: "\<forall>r \<in> set data. createdAt r \<le> c"
  then have none: "filteredData (cfg e) c data = []"
    by (fastforce simp: filteredData_Nil_iff filterRecord_def)
  with assms show first: "sync e c = (Some (Inr c), [])" by (rule sync_no_candidates)
  fix c' assume "fst (sync e c) = Some (Inr c')"
  with first show "sync e c' = (Some (Inr c'), [])" by simp
next
  fix c1 data1
  assume a: "fst (sync e c) = Some (Inr c1) \<and> get_recordings e c1 = Inr data1 \<and>
      set data1 \<subseteq> set data \<and> (\<forall>r \<in> set data1. createdAt r \<le> updatedAt r)"
  have "\<not> filterRecord (cfg e) c1 r" if r: "r \<in> set data1" for r
  proof (cases "filteredData (cfg e) c data = []")
    case True
    with assms a have "c1 = c" by (simp add: sync_no_candidates)
    moreover have "\<not> filterRecord (cfg e) c r"
      using True a r by (auto simp: filteredData_Nil_iff)
    ultimately show ?thesis by simp
  next
    case False
    with assms a have "c1 = Max (updatedAt ` set data)" using sync_success(2) by blast
    moreover have "r \<in> set data" using a r by blast
    ultimately have "updatedAt r \<le> c1" by simp
    moreover have "createdAt r \<le> updatedAt r" using a r by blast
    ultimately show ?thesis by (simp add: filterRecord_def)
  qed
  then have "filteredData (cfg e) c1 data1 = []" by (simp add: filteredData_Nil_iff)
  with a show "sync e c1 = (Some (Inr c1), [])" by (simp add: sync_no_candidates)
qed

theorem sync_idempotent_witness:
  "get_recordings demo 900 = Inr demo_data \<and>
   filteredData (cfg demo) 900 demo_data = [] \<and>
   list_all (\<lambda>r. createdAt r \<le> 900) demo_data \<and>
   sync demo 900 = (Some (Inr 900), []) \<and>
   get_recordings demo 50 = Inr demo_data \<and>
   fst (sync demo 50) = Some (Inr 900) \<and>
   set demo_data \<subseteq> set demo_data \<and>
   list_all (\<lambda>r. createdAt r \<le> updatedAt r) demo_data"
proof -
  have h1: "get_recordings demo 900 = Inr demo_data" by code_simp
  have h2: "filteredData (cfg demo) 900 demo_data = []" by code_simp
  have h3: "\<forall>r \<in> set demo_data. createdAt r \<le> 900" by code_simp
  have h4: "get_recordings demo 50 = Inr demo_data" by code_simp
  have h5: "fst (sync demo 50) = Some (Inr 900)" by code_simp
  have h6: "\<forall>r \<in> set demo_data. createdAt r \<le> updatedAt r" by code_simp
  from sync_idempotent [OF h1] h2 h3 have a: "sync demo 900 = (Some (Inr 900), [])" by blast
  from sync_idempotent [OF h4] h5 h1 h6 have "sync demo 900 = (Some (Inr 900), [])" by blast
  moreover have "list_all (\<lambda>r. createdAt r \<le> 900) demo_data"
    unfolding list_all_iff by (rule h3)
  moreover have "list_all (\<lambda>r. createdAt r \<le> updatedAt r) demo_data"
    unfolding list_all_iff by (rule h6)
  ultimately show ?thesis using h1 h2 h4 h5 by simp
qed

theorem sync_idempotent_counterexample:
  "get_recordings demo_backdated 0 = Inr [rec_backdated] \<and>
   sync demo_backdated 0 = (Some (Inr 50), [backdated_payload]) \<and>
   get_recordings demo_backdated 50 = Inr [rec_backdated] \<and>
   sync demo_backdated 50 = (Some (Inr 50), [backdated_payload])"
  by code_simp

text \<open>
  Claim C10. For a recording with author and subject whose body parses, \<open>formatWebhook\<close>
  returns a payload whose text is the author's name up to its first space character,
  then \<open>shared\<close>, the recording link with the type's label, \<open>about\<close> and the subject link
  with the subject name; it has one attachment, with the raw body as fallback, the parsed
  body as text, \<open>createdAt\<close> divided by 1000 as \<open>ts\<close> and \<open>[text, pretext]\<close> as
  \<open>mrkdwn_in\<close>; the attachment has \<open>title\<close> and \<open>title_link\<close> (the recording link) exactly
  when the recording's title is present and not empty. The label is what
  \<open>recordingTypes[type] || 'a note'\<close> renders: the label of email, note or comment,
  \<open>a note\<close> for a type that names no property, and the text of the inherited property
  for a type named like a property of \<open>Object.prototype\<close>.
\<close>

theorem formatWebhook_payload:
  assumes "author r = Some a" and "subject r = Some s"
    and "parseBody (simpleParser e) r = Inr b"
  shows "(\<exists>p att. formatWebhook e r = Inr p \<and>
           ptext p = takeWhile (\<lambda>x. x \<noteq> CHR '' '') (ent_name a) @ '' shared <''
                       @ highriseUrl (cfg e) @ rtype r @ ''s/'' @ rid r @ ''|''
                       @ recordingType (object_prototype e) (rtype r) @ ''> about <''
                       @ highriseUrl (cfg e) @ getSubjectPath (subjectType r) @ ''/'' @ ent_id s
                       @ ''|'' @ subjectName r @ ''>'' \<and>
           attachments p = [att] \<and>
           fallback att = body r \<and>
           att_text att = b \<and>
           ts att = of_int (createdAt r) / 1000 \<and>
           mrkdwn_in att = [''text'', ''pretext''] \<and>
           (title r \<noteq> None \<and> title r \<noteq> Some [] \<longrightarrow>
              att_title att = title r \<and>
              title_link att = Some (highriseUrl (cfg e) @ rtype r @ ''s/'' @ rid r)) \<and>
           (title r = None \<or> title r = Some [] \<longrightarrow>
              att_title att = None \<and> title_link att = None)) \<and>
         (rtype r = ''email'' \<longrightarrow> recordingType (object_prototype e) (rtype r) = ''an email'') \<and>
         (rtype r = ''note'' \<longrightarrow> recordingType (object_prototype e) (rtype r) = ''a note'') \<and>
         (rtype r = ''comment'' \<longrightarrow>
            recordingType (object_prototype e) (rtype r) = ''a comment'') \<and>
         (rtype r \<noteq> ''email'' \<and> rtype r \<noteq> ''note'' \<and> rtype r \<noteq> ''comment'' \<longrightarrow>
            (object_prototype e (rtype r) = None \<longrightarrow>
               recordingType (object_prototype e) (rtype r) = ''a note'') \<and>
            (\<forall>inherited. object_prototype e (rtype r) = Some inherited \<longrightarrow>
               recordingType (object_prototype e) (rtype r) = inherited))"
proof (intro conjI)
  show "\<exists>p att. formatWebhook e r = Inr p \<and>
           ptext p = takeWhile (\<lambda>x. x \<noteq> CHR '' '') (ent_name a) @ '' shared <''
                       @ highriseUrl (cfg e) @ rtype r @ ''s/'' @ rid r @ ''|''
                       @ recordingType (object_prototype e) (rtype r) @ ''> about <''
                       @ highriseUrl (cfg e) @ getSubjectPath (subjectType r) @ ''/'' @ ent_id s
                       @ ''|'' @ subjectName r @ ''>'' \<and>
           attachments p = [att] \<and>
           fallback att = body r \<and>
           att_text att = b \<and>
           ts att = of_int (createdAt r) / 1000 \<and>
           mrkdwn_in att = [''text'', ''pretext''] \<and>
           (title r \<noteq> None \<and> title r \<noteq> Some [] \<longrightarrow>
              att_title att = title r \<and>
              title_link att = Some (highriseUrl (cfg e) @ rtype r @ ''s/'' @ rid r)) \<and>
           (title r = None \<or> title r = Some [] \<longrightarrow>
              att_title att = None \<and> title_link att = None)"
    using assms
    by (auto simp: formatWebhook_def Let_def truncate_js_def hd_split split: option.splits)
qed (auto simp: recordingType_def recordingTypes_def or_str_def)

theorem formatWebhook_payload_witness:
  "author (rec_email\<lparr>author := Some ann, subject := Some acme\<rparr>) = Some ann \<and>
   subject (rec_email\<lparr>author := Some ann, subject := Some acme\<rparr>) = Some acme \<and>
   parseBody (simpleParser demo) (rec_email\<lparr>author := Some ann, subject := Some acme\<rparr>)
     = Inr ''Hello'' \<and>
   formatWebhook demo (rec_email\<lparr>author := Some ann, subject := Some acme\<rparr>) = Inr email_payload \<and>
   (\<exists>p att. formatWebhook demo (rec_email\<lparr>author := Some ann, subject := Some acme\<rparr>) = Inr p \<and>
      attachments p = [att] \<and> att_text att = ''Hello'') \<and>
   rtype (rec_email\<lparr>author := Some ann, subject := Some acme\<rparr>) = ''email'' \<and>
   recordingType (object_prototype demo) (rtype (rec_email\<lparr>author := Some ann, subject := Some acme\<rparr>))
     = ''an email'' \<and>
   object_prototype demo ''call'' = None \<and>
   recordingType (object_prototype demo) ''call'' = ''a note'' \<and>
   object_prototype demo ''constructor'' = Some ''function Object() { [native code] }'' \<and>
   recordingType (object_prototype demo) ''constructor'' = ''function Object() { [native code] }''"
proof -
  have h1: "author (rec_email\<lparr>author := Some ann, subject := Some acme\<rparr>) = Some ann" by simp
  have h2: "subject (rec_email\<lparr>author := Some ann, subject := Some acme\<rparr>) = Some acme" by simp
  have h3: "parseBody (simpleParser demo) (rec_email\<lparr>author := Some ann, subject := Some acme\<rparr>)
     = Inr ''Hello''"
    by code_simp
  have h4: "formatWebhook demo (rec_email\<lparr>author := Some ann, subject := Some acme\<rparr>)
     = Inr email_payload"
    by code_simp
  have h5: "rtype (rec_email\<lparr>author := Some ann, subject := Some acme\<rparr>) = ''email''"
    by code_simp
  have h6: "object_prototype demo ''call'' = None" by code_simp
  have h7: "recordingType (object_prototype demo) ''call'' = ''a note''" by code_simp
  have h8: "object_prototype demo ''constructor'' = Some ''function Object() { [native code] }''"
    by code_simp
  have h9: "recordingType (object_prototype demo) ''constructor''
      = ''function Object() { [native code] }''"
    by code_simp
  note inst = formatWebhook_payload [OF h1 h2 h3]
  from inst [THEN conjunct1]
  have a: "\<exists>p att. formatWebhook demo (rec_email\<lparr>author := Some ann, subject := Some acme\<rparr>) = Inr p \<and>
      attachments p = [att] \<and> att_text att = ''Hello''"
    by blast
  have b: "recordingType (object_prototype demo)
      (rtype (rec_email\<lparr>author := Some ann, subject := Some acme\<rparr>)) = ''an email''"
    using inst [THEN conjunct2, THEN conjunct1] h5 by (rule mp)
  show ?thesis by (intro conjI h1 h2 h3 h4 a h5 b h6 h7 h8 h9)
qed

theorem formatWebhook_counterexample:
  "sync demo_tabbed 0 = (Some (Inr 400), [tabbed_payload]) \<and>
   formatWebhook demo_tabbed (rec_tabbed\<lparr>author := Some ann_tab, subject := Some renewal\<rparr>)
     = Inr tabbed_payload \<and>
   ptext tabbed_payload \<noteq> spec_main_text demo_cfg rec_tabbed ann_tab renewal \<and>
   title rec_tabbed = Some [] \<and>
   att_title (hd (attachments tabbed_payload)) = None \<and>
   title_link (hd (attachments tabbed_payload)) = None"
  by code_simp

end
